theory Spec2Isabelle
  imports Main
begin

section \<open>JavaScript values\<close>

text \<open>
  The handlers of \<^verbatim>\<open>src/app.ts\<close> receive values of type \<^verbatim>\<open>any\<close> and combine them with
  the operator \<^verbatim>\<open>||\<close>, so the model needs JavaScript values and their truthiness.
  Numbers are the integer-valued ones together with \<^verbatim>\<open>NaN\<close>; an object literal is the list
  of its properties in the order they are written.
\<close>

datatype js_value =
    JUndefined
  | JNull
  | JBool bool
  | JNumber int
  | JNaN
  | JString string
  | JObject "(string \<times> js_value) list"

text \<open>\<^verbatim>\<open>ToBoolean\<close>: the falsy values are \<^verbatim>\<open>undefined\<close>, \<^verbatim>\<open>null\<close>, \<^verbatim>\<open>false\<close>, \<^verbatim>\<open>0\<close>,
  \<^verbatim>\<open>NaN\<close> and the empty string; every object is truthy.\<close>

fun truthy :: "js_value \<Rightarrow> bool" where
  "truthy JUndefined = False"
| "truthy JNull = False"
| "truthy (JBool b) = b"
| "truthy (JNumber n) = (n \<noteq> 0)"
| "truthy JNaN = False"
| "truthy (JString s) = (s \<noteq> [])"
| "truthy (JObject kvs) = True"

text \<open>\<^verbatim>\<open>a || b\<close> is \<^verbatim>\<open>a\<close> when \<^verbatim>\<open>a\<close> is truthy and \<^verbatim>\<open>b\<close> otherwise.\<close>

definition js_or :: "js_value \<Rightarrow> js_value \<Rightarrow> js_value" where
  "js_or a b = (if truthy a then a else b)"

text \<open>Reading a property: \<^verbatim>\<open>undefined\<close> when the property is missing.\<close>

definition lookup_prop :: "(string \<times> js_value) list \<Rightarrow> string \<Rightarrow> js_value" where
  "lookup_prop kvs k = (case map_of kvs k of None \<Rightarrow> JUndefined | Some v \<Rightarrow> v)"

fun js_get :: "js_value \<Rightarrow> string \<Rightarrow> js_value" where
  "js_get (JObject kvs) k = lookup_prop kvs k"
| "js_get v k = JUndefined"

section \<open>Errors, requests and effects\<close>

text \<open>
  A thrown value as the error middleware sees it: the name of its constructor
  (\<^verbatim>\<open>error.constructor.name\<close>) and the properties that a property read finds on it,
  its own and the inherited ones. Every instance of a class, every object literal and
  every primitive value has such a constructor; a value without one is outside the model.
\<close>

record js_error =
  ctor_name :: string
  props :: "(string \<times> js_value) list"

definition error_prop :: "js_error \<Rightarrow> string \<Rightarrow> js_value" where
  "error_prop error k = lookup_prop (props error) k"

text \<open>
  \<^verbatim>\<open>class HTTPError extends Error\<close> (lines 144-157). The constructor restores the prototype,
  so the constructor name is \<^verbatim>\<open>HTTPError\<close>; it sets \<^verbatim>\<open>name\<close> to \<^verbatim>\<open>Error.name\<close>, stores its
  first argument in the property \<^verbatim>\<open>status\<close> and its second in \<^verbatim>\<open>message\<close>. The stack trace
  is left out: nothing below reads it.
\<close>

definition HTTPError :: "int \<Rightarrow> string \<Rightarrow> js_error" where
  "HTTPError statusCode message =
     \<lparr> ctor_name = ''HTTPError'',
       props = [(''name'', JString ''Error''),
                (''status'', JNumber statusCode),
                (''message'', JString message)] \<rparr>"

record request =
  http_method :: string
  path :: string
  authorization :: "string option"

text \<open>
  What a handler does to the outside, in the order it does it: writing to the console,
  calling a method of the logger, calling \<^verbatim>\<open>done\<close> in the verify callback, setting the
  status or writing the body of the response, and calling \<^verbatim>\<open>next\<close> (with an error or
  without).
\<close>

datatype effect =
    ConsoleLog "js_value list"
  | LoggerCall string string
  | DoneCall js_value js_value js_value
  | ResStatus js_value
  | ResJson js_value
  | ResSend string
  | ResEnd
  | Next "js_error option"

section \<open>The error-formatting middleware (lines 159-176)\<close>

definition customError :: "js_error \<Rightarrow> bool" where
  "customError error =
     (if ctor_name error = ''NodeError'' \<or> ctor_name error = ''SyntaxError''
      then False else True)"

definition envelope :: "js_error \<Rightarrow> request \<Rightarrow> js_value" where
  "envelope error req =
     JObject
       [(''response'', JString ''Error''),
        (''error'', JObject
           [(''type'', JString (if customError error = False
                                then ''UnhandledError'' else ctor_name error)),
            (''path'', JString (path req)),
            (''statusCode'', js_or (error_prop error ''statusCode'') (JNumber 500)),
            (''message'', error_prop error ''message'')])]"

text \<open>What a handler throws: the HTTP layer's refusal of a status code.\<close>

datatype thrown = InvalidStatusCode js_value

text \<open>
  Lines 166-174 are one statement, \<^verbatim>\<open>res.status(...).json(...)\<close>, and line 175,
  \<^verbatim>\<open>next(error)\<close>, is the next one; nothing catches in between. The HTTP layer refuses
  some status codes: the first statement then throws, no body is written and line 175 is
  not reached. Which codes it accepts is the framework's affair, so the test is a
  parameter.
\<close>

definition error_middleware ::
  "(js_value \<Rightarrow> bool) \<Rightarrow> js_error \<Rightarrow> request \<Rightarrow> thrown + effect list" where
  "error_middleware accepts error req =
     (if accepts (js_or (error_prop error ''statusCode'') (JNumber 500))
      then Inr [ResStatus (js_or (error_prop error ''statusCode'') (JNumber 500)),
                ResJson (envelope error req),
                Next (Some error)]
      else Inl (InvalidStatusCode (js_or (error_prop error ''statusCode'') (JNumber 500))))"

text \<open>An HTTP layer that accepts the integers from 100 to 999 and refuses every other
  value; the concrete statements below are evaluated with it.\<close>

fun status_in_range :: "js_value \<Rightarrow> bool" where
  "status_in_range (JNumber n) = (100 \<le> n \<and> n \<le> 999)"
| "status_in_range v = False"

section \<open>The response object\<close>

datatype payload = Text string | Json js_value

record response =
  statusCode :: js_value
  body :: "payload option"

text \<open>
  Modelled from the spec: the framework's response object. A response starts with status
  200 and no body (section 6: a successful response is \<^verbatim>\<open>200 OK\<close> although the handler
  sets no status); \<^verbatim>\<open>res.status\<close> stores the status it is given, \<^verbatim>\<open>res.json\<close> and
  \<^verbatim>\<open>res.send\<close> write the body (section 4.6: the body is written with the resolved status
  code). The other effects leave the response as it is.
\<close>

definition fresh_response :: response where
  "fresh_response = \<lparr> statusCode = JNumber 200, body = None \<rparr>"

text \<open>Modelled from the spec: what each effect does to the response.\<close>

fun res_apply :: "effect \<Rightarrow> response \<Rightarrow> response" where
  "res_apply (ResStatus code) res = res\<lparr> statusCode := code \<rparr>"
| "res_apply (ResJson obj) res = res\<lparr> body := Some (Json obj) \<rparr>"
| "res_apply (ResSend text) res = res\<lparr> body := Some (Text text) \<rparr>"
| "res_apply e res = res"

text \<open>The response after a handler's effects, and the object written as its JSON body.\<close>

definition respond :: "effect list \<Rightarrow> response" where
  "respond fx = fold res_apply fx fresh_response"

definition json_body :: "response \<Rightarrow> js_value" where
  "json_body res = (case body res of Some (Json obj) \<Rightarrow> obj | _ \<Rightarrow> JUndefined)"

section \<open>The logger (lines 13-80)\<close>

definition levels :: "(string \<times> nat) list" where
  "levels = [(''error'', 0), (''warn'', 1), (''info'', 2), (''http'', 3), (''debug'', 4)]"

text \<open>\<^verbatim>\<open>process.env.NODE_ENV\<close>: the variable's string when it is set (the empty string
  included), \<^verbatim>\<open>undefined\<close> when it is not.\<close>

definition NODE_ENV :: "string option \<Rightarrow> js_value" where
  "NODE_ENV var = (case var of None \<Rightarrow> JUndefined | Some s \<Rightarrow> JString s)"

definition level :: "string option \<Rightarrow> string" where
  "level var =
     (let env = js_or (NODE_ENV var) (JString ''development'');
          isDevelopment = (env = JString ''development'')
      in if isDevelopment then ''debug'' else ''warn'')"

text \<open>
  Modelled from the spec: the logging library's level filter (section 4.1). Lower numbers
  are more severe, and a record is emitted when it is at or above the effective minimum
  level, that is when its number in \<open>levels\<close> is at most the number of \<open>level\<close>. The
  logger is created once, with the level the environment gives at that moment.
\<close>

definition enabled :: "string option \<Rightarrow> string \<Rightarrow> bool" where
  "enabled var lvl =
     (case (map_of levels lvl, map_of levels (level var)) of
        (Some n, Some m) \<Rightarrow> n \<le> m
      | _ \<Rightarrow> False)"

text \<open>Modelled from the spec: the records the logger emits, out of the calls made to
  it.\<close>

fun emitted :: "string option \<Rightarrow> effect list \<Rightarrow> (string \<times> string) list" where
  "emitted var [] = []"
| "emitted var (LoggerCall lvl message # fx) =
     (if enabled var lvl then (lvl, message) # emitted var fx else emitted var fx)"
| "emitted var (e # fx) = emitted var fx"

section \<open>The request-logging adapter (lines 83-108)\<close>

definition stream_write :: "string \<Rightarrow> effect list" where
  "stream_write message = [LoggerCall ''http'' message]"

definition skip :: "string option \<Rightarrow> bool" where
  "skip var =
     (let env = js_or (NODE_ENV var) (JString ''development'')
      in env \<noteq> JString ''development'')"

text \<open>A completed request/response cycle, as the tokens of the format string of line 104
  render it.\<close>

record exchange =
  req_method :: string
  req_url :: string
  res_status :: string
  res_content_length :: string
  response_time :: string

definition format_line :: "exchange \<Rightarrow> string" where
  "format_line x =
     req_method x @ '' '' @ req_url x @ '' '' @ res_status x @ '' ''
       @ res_content_length x @ '' - '' @ response_time x @ '' ms''"

text \<open>
  Modelled from the spec: the request-logging library (section 4.2). Each completed cycle
  that the adapter has seen becomes one line, handed with its line terminator to
  \<^verbatim>\<open>stream.write\<close>, unless the \<^verbatim>\<open>skip\<close> option answers true for it.
\<close>

definition morganMiddleware :: "string option \<Rightarrow> exchange \<Rightarrow> effect list" where
  "morganMiddleware var x =
     (if skip var then [] else stream_write (format_line x @ [CHR 0x0A]))"

text \<open>
  Modelled from the spec: the chain of lines 112-120 as far as the adapter (sections 4.3
  and 5). The body parsers are registered before the adapter; a request whose body fails
  to parse skips directly to the error middleware, so the adapter never sees it. A
  request that the parsers pass on reaches the adapter.
\<close>

definition app_use :: "string option \<Rightarrow> js_error option \<Rightarrow> exchange \<Rightarrow> effect list" where
  "app_use var parse_failure x =
     (case parse_failure of
        Some e \<Rightarrow> [Next (Some e)]
      | None \<Rightarrow> morganMiddleware var x)"

section \<open>Authentication and the route (lines 122-142)\<close>

text \<open>An asynchronous function's run is the effects it performs, with \<open>None\<close> when its
  promise is fulfilled and \<open>Some e\<close> when the function throws \<open>e\<close>.\<close>

definition asyncWrapper ::
  "(request \<Rightarrow> effect list \<times> js_error option) \<Rightarrow> request \<Rightarrow> effect list" where
  "asyncWrapper fn req =
     (case fn req of (fx, None) \<Rightarrow> fx | (fx, Some e) \<Rightarrow> fx @ [Next (Some e)])"

definition verify :: "string \<Rightarrow> effect list" where
  "verify token =
     (let user = JObject []
      in [ConsoleLog [JString ''HELLLLOOO ::::'', JString token],
          DoneCall JNull user (JObject [(''scope'', JString ''all'')])])"

definition handler :: "request \<Rightarrow> effect list \<times> js_error option" where
  "handler req =
     ([LoggerCall ''debug'' ''foo'', ResSend ''Express + TypeScript Server''], None)"

text \<open>The calls of \<^verbatim>\<open>done\<close> and of \<^verbatim>\<open>next\<close> among the effects, with their arguments.\<close>

fun done_calls :: "effect list \<Rightarrow> (js_value \<times> js_value \<times> js_value) list" where
  "done_calls [] = []"
| "done_calls (DoneCall err user info # fx) = (err, user, info) # done_calls fx"
| "done_calls (e # fx) = done_calls fx"

fun next_calls :: "effect list \<Rightarrow> js_error option list" where
  "next_calls [] = []"
| "next_calls (Next arg # fx) = arg # next_calls fx"
| "next_calls (e # fx) = next_calls fx"

text \<open>
  Modelled from the spec: how the framework chains the handlers of one route (section 5
  and the glossary). The handlers run in the order they are registered, and the next one
  runs when the one before it has called \<^verbatim>\<open>next()\<close> with no argument; a handler that
  answers, or forwards an error, ends the chain.
\<close>

definition then_handler :: "effect list \<Rightarrow> effect list \<Rightarrow> effect list" where
  "then_handler fx gx = (if Next None \<in> set fx then fx @ gx else fx)"

text \<open>
  The route \<^verbatim>\<open>app.post("/", passport.authenticate(...), asyncWrapper(...))\<close> of lines
  134-142. The authentication middleware comes from a library, so it is a parameter.
\<close>

definition post_root :: "(request \<Rightarrow> effect list) \<Rightarrow> request \<Rightarrow> effect list" where
  "post_root authenticate req = then_handler (authenticate req) (asyncWrapper handler req)"

text \<open>
  Modelled from the spec: the bearer authentication layer (sections 4.4, 6 and 8). The
  credential is the token of an \<^verbatim>\<open>Authorization: Bearer <token>\<close> header. A request that
  presents none is answered 401 and goes no further; a presented token is handed to the
  verify callback, and the request goes on when the callback calls \<^verbatim>\<open>done\<close> with no
  error and a principal, and is answered 401 when it refuses.
\<close>

definition bearer_token :: "request \<Rightarrow> string option" where
  "bearer_token req =
     (case authorization req of
        None \<Rightarrow> None
      | Some h \<Rightarrow> if take 7 h = ''Bearer '' then Some (drop 7 h) else None)"

text \<open>Modelled from the spec: the authentication middleware built on a verify
  callback.\<close>

definition passport_authenticate :: "(string \<Rightarrow> effect list) \<Rightarrow> request \<Rightarrow> effect list" where
  "passport_authenticate vf req =
     (case bearer_token req of
        None \<Rightarrow> [ResStatus (JNumber 401), ResEnd]
      | Some token \<Rightarrow>
          (let fx = vf token
           in case done_calls fx of
                [] \<Rightarrow> fx
              | (err, user, info) # rest \<Rightarrow>
                  if \<not> truthy err \<and> truthy user then fx @ [Next None]
                  else fx @ [ResStatus (JNumber 401), ResEnd]))"

section \<open>Auxiliary facts\<close>

lemma js_or_cases:
  "js_or v d =
     (if v \<in> {JUndefined, JNull, JBool False, JNumber 0, JNaN, JString ''''} then d else v)"
  by (cases v) (auto simp: js_or_def)

lemma falsy_values:
  "\<not> truthy v \<longleftrightarrow> v \<in> {JUndefined, JNull, JBool False, JNumber 0, JNaN, JString ''''}"
  by (cases v) auto

lemma resolved_status:
  "js_or (error_prop error ''statusCode'') (JNumber 500) =
     (case map_of (props error) ''statusCode'' of
        None \<Rightarrow> JNumber 500
      | Some v \<Rightarrow> if truthy v then v else JNumber 500)"
  by (simp add: js_or_def error_prop_def lookup_prop_def split: option.splits)

lemma respond_append: "respond (fx @ gx) = fold res_apply gx (respond fx)"
  by (simp add: respond_def)

lemma skip_iff:
  "skip var \<longleftrightarrow> var \<noteq> None \<and> var \<noteq> Some '''' \<and> var \<noteq> Some ''development''"
  by (cases var) (auto simp: skip_def NODE_ENV_def js_or_def)

lemma level_unless_skip: "\<not> skip var \<Longrightarrow> level var = ''debug''"
  by (cases var) (auto simp: skip_def level_def NODE_ENV_def js_or_def)

section \<open>The error-formatting middleware: what it answers\<close>

text \<open>
  C1. An application error thrown with an explicit status code, the \<^verbatim>\<open>HTTPError\<close> built
  from 400 and "FOO NOT FOUND", should be answered with that code and with its type
  name. The middleware reads the property \<^verbatim>\<open>statusCode\<close>, the class stores the code in
  \<^verbatim>\<open>status\<close>: the answer carries the type name \<^verbatim>\<open>HTTPError\<close> but the status 500, on
  the response and in the envelope.
\<close>

theorem http_error_400_answered_500:
  "error_middleware status_in_range (HTTPError 400 ''FOO NOT FOUND'')
       \<lparr> http_method = ''POST'', path = ''/'', authorization = Some ''Bearer anything123'' \<rparr>
     = Inr [ResStatus (JNumber 500),
            ResJson (JObject
              [(''response'', JString ''Error''),
               (''error'', JObject
                  [(''type'', JString ''HTTPError''),
                   (''path'', JString ''/''),
                   (''statusCode'', JNumber 500),
                   (''message'', JString ''FOO NOT FOUND'')])]),
            Next (Some (HTTPError 400 ''FOO NOT FOUND''))]
   \<and> statusCode (respond (projr (error_middleware status_in_range
         (HTTPError 400 ''FOO NOT FOUND'')
         \<lparr> http_method = ''POST'', path = ''/'',
           authorization = Some ''Bearer anything123'' \<rparr>)))
     = JNumber 500
   \<and> JNumber 500 \<noteq> JNumber 400"
  by (simp add: error_middleware_def envelope_def customError_def error_prop_def
      lookup_prop_def js_or_def HTTPError_def respond_def fresh_response_def)

text \<open>The same holds for every code and message given to the class and every HTTP layer
  that accepts 500, while an error that carries an accepted non-zero number in the
  property \<^verbatim>\<open>statusCode\<close> is answered with it.\<close>

lemma HTTPError_status_ignored:
  assumes "accepts (JNumber 500)"
  shows "error_middleware accepts (HTTPError code message) req =
     Inr [ResStatus (JNumber 500), ResJson (envelope (HTTPError code message) req),
          Next (Some (HTTPError code message))]"
  using assms
  by (simp add: error_middleware_def error_prop_def lookup_prop_def js_or_def HTTPError_def)

lemma statusCode_property_honoured:
  assumes "map_of (props error) ''statusCode'' = Some (JNumber n)" and "n \<noteq> 0"
    and "accepts (JNumber n)"
  shows "error_middleware accepts error req =
     Inr [ResStatus (JNumber n), ResJson (envelope error req), Next (Some error)]"
  using assms
  by (simp add: error_middleware_def error_prop_def lookup_prop_def js_or_def)

text \<open>
  An error whose constructor is \<^verbatim>\<open>SyntaxError\<close> is answered as "UnhandledError", with
  status 500 when it carries no \<^verbatim>\<open>statusCode\<close> and with its \<^verbatim>\<open>statusCode\<close> when it
  carries one: what a body parser's error is answered with depends on the properties the
  parser gives it.
\<close>

lemma syntax_error_without_statusCode:
  "error_middleware status_in_range
       \<lparr> ctor_name = ''SyntaxError'', props = [(''message'', JString m)] \<rparr> req
     = Inr [ResStatus (JNumber 500),
            ResJson (JObject
              [(''response'', JString ''Error''),
               (''error'', JObject
                  [(''type'', JString ''UnhandledError''),
                   (''path'', JString (path req)),
                   (''statusCode'', JNumber 500),
                   (''message'', JString m)])]),
            Next (Some \<lparr> ctor_name = ''SyntaxError'',
                         props = [(''message'', JString m)] \<rparr>)]"
  by (simp add: error_middleware_def envelope_def customError_def error_prop_def
      lookup_prop_def js_or_def)

lemma syntax_error_with_statusCode:
  "statusCode (respond (projr (error_middleware status_in_range
       \<lparr> ctor_name = ''SyntaxError'',
         props = [(''message'', JString m), (''statusCode'', JNumber 400)] \<rparr> req)))
     = JNumber 400"
  by (simp add: error_middleware_def error_prop_def lookup_prop_def js_or_def
      respond_def fresh_response_def)

text \<open>
  C3, as the code has it. For every error that reaches the middleware and whose resolved
  status code (\<^verbatim>\<open>error.statusCode || 500\<close>) the HTTP layer accepts, the answer is the
  status, then the body \<^verbatim>\<open>{response: "Error", error: {type, path, statusCode, message}}\<close>,
  then \<^verbatim>\<open>next(error)\<close>. The type is "UnhandledError" when the constructor's name is
  "NodeError" or "SyntaxError" and the constructor's name otherwise, the path is the
  request's, the message is the error's \<^verbatim>\<open>message\<close>, and the status code is the error's
  \<^verbatim>\<open>statusCode\<close> when that is truthy (present and none of \<^verbatim>\<open>undefined\<close>, \<^verbatim>\<open>null\<close>,
  \<^verbatim>\<open>false\<close>, 0, \<^verbatim>\<open>NaN\<close>, the empty string) and 500 otherwise.
\<close>

theorem error_envelope_shape:
  assumes "accepts (js_or (error_prop error ''statusCode'') (JNumber 500))"
  shows "error_middleware accepts error req =
     Inr [ResStatus
            (case map_of (props error) ''statusCode'' of
               None \<Rightarrow> JNumber 500
             | Some v \<Rightarrow>
                 if v \<in> {JUndefined, JNull, JBool False, JNumber 0, JNaN, JString ''''}
                 then JNumber 500 else v),
          ResJson (JObject
            [(''response'', JString ''Error''),
             (''error'', JObject
                [(''type'', JString
                    (if ctor_name error = ''NodeError'' \<or> ctor_name error = ''SyntaxError''
                     then ''UnhandledError'' else ctor_name error)),
                 (''path'', JString (path req)),
                 (''statusCode'',
                    case map_of (props error) ''statusCode'' of
                      None \<Rightarrow> JNumber 500
                    | Some v \<Rightarrow>
                        if v \<in> {JUndefined, JNull, JBool False, JNumber 0, JNaN, JString ''''}
                        then JNumber 500 else v),
                 (''message'',
                    case map_of (props error) ''message'' of
                      None \<Rightarrow> JUndefined | Some m \<Rightarrow> m)])]),
          Next (Some error)]"
proof -
  have code: "js_or (error_prop error ''statusCode'') (JNumber 500) =
      (case map_of (props error) ''statusCode'' of
         None \<Rightarrow> JNumber 500
       | Some v \<Rightarrow>
           if v \<in> {JUndefined, JNull, JBool False, JNumber 0, JNaN, JString ''''}
           then JNumber 500 else v)"
    by (simp add: resolved_status falsy_values split: option.splits)
  have "error_middleware accepts error req =
      Inr [ResStatus (js_or (error_prop error ''statusCode'') (JNumber 500)),
           ResJson (envelope error req), Next (Some error)]"
    using assms by (simp add: error_middleware_def)
  then show ?thesis
    unfolding envelope_def code
    by (simp add: customError_def error_prop_def lookup_prop_def split: option.splits)
qed

text \<open>The statement at an error of a class of the application that carries the status
  code 404, on the path \<^verbatim>\<open>/items\<close>, with the HTTP layer that accepts 100 to 999.\<close>

theorem error_envelope_shape_witness:
  "error_middleware status_in_range
       \<lparr> ctor_name = ''NotFoundError'',
         props = [(''message'', JString ''no such item''), (''statusCode'', JNumber 404)] \<rparr>
       \<lparr> http_method = ''POST'', path = ''/items'', authorization = None \<rparr>
     = Inr [ResStatus (JNumber 404),
            ResJson (JObject
              [(''response'', JString ''Error''),
               (''error'', JObject
                  [(''type'', JString ''NotFoundError''),
                   (''path'', JString ''/items''),
                   (''statusCode'', JNumber 404),
                   (''message'', JString ''no such item'')])]),
            Next (Some
              \<lparr> ctor_name = ''NotFoundError'',
                props = [(''message'', JString ''no such item''),
                         (''statusCode'', JNumber 404)] \<rparr>)]"
proof -
  let ?e = "\<lparr> ctor_name = ''NotFoundError'',
              props = [(''message'', JString ''no such item''),
                       (''statusCode'', JNumber 404)] \<rparr>"
  have h: "status_in_range (js_or (error_prop ?e ''statusCode'') (JNumber 500))"
    by (simp add: js_or_def error_prop_def lookup_prop_def)
  show ?thesis
    using error_envelope_shape [of status_in_range ?e
        "\<lparr> http_method = ''POST'', path = ''/items'', authorization = None \<rparr>", OF h]
    by simp
qed

text \<open>
  C3 as it is written fails, at two errors. An error whose \<^verbatim>\<open>statusCode\<close> is \<^verbatim>\<open>NaN\<close>
  has the attribute, and the attribute is not zero, yet the envelope carries 500 and not
  the attribute. An error whose \<^verbatim>\<open>statusCode\<close> is 1000 has a non-zero attribute outside
  100 to 999: the middleware throws and no body at all is written.
\<close>

theorem statusCode_NaN_or_1000_not_in_envelope:
  "map_of (props \<lparr> ctor_name = ''Error'',
                   props = [(''statusCode'', JNaN), (''message'', JString ''boom'')] \<rparr>)
       ''statusCode'' = Some JNaN
   \<and> JNaN \<noteq> JNumber 0
   \<and> js_get (js_get (json_body (respond (projr (error_middleware status_in_range
         \<lparr> ctor_name = ''Error'',
           props = [(''statusCode'', JNaN), (''message'', JString ''boom'')] \<rparr>
         \<lparr> http_method = ''POST'', path = ''/'', authorization = None \<rparr>)))) ''error'')
       ''statusCode''
     = JNumber 500
   \<and> JNumber 500 \<noteq> JNaN
   \<and> map_of (props \<lparr> ctor_name = ''Error'',
                   props = [(''statusCode'', JNumber 1000),
                            (''message'', JString ''boom'')] \<rparr>)
       ''statusCode'' = Some (JNumber 1000)
   \<and> JNumber 1000 \<noteq> JNumber 0
   \<and> error_middleware status_in_range
         \<lparr> ctor_name = ''Error'',
           props = [(''statusCode'', JNumber 1000), (''message'', JString ''boom'')] \<rparr>
         \<lparr> http_method = ''POST'', path = ''/'', authorization = None \<rparr>
     = Inl (InvalidStatusCode (JNumber 1000))"
  by (simp add: respond_def error_middleware_def fresh_response_def json_body_def
      envelope_def lookup_prop_def js_or_def error_prop_def)

text \<open>
  C4, as the code has it. For every error whose resolved status code the HTTP layer
  accepts, the middleware does not throw, it calls \<^verbatim>\<open>next\<close> once, with the error it was
  given, as its last action, and the envelope has been written to the response before
  that call.
\<close>

theorem error_forwarded_after_response:
  assumes "accepts (js_or (error_prop error ''statusCode'') (JNumber 500))"
  shows "isl (error_middleware accepts error req) = False
       \<and> next_calls (projr (error_middleware accepts error req)) = [Some error]
       \<and> projr (error_middleware accepts error req) =
           butlast (projr (error_middleware accepts error req)) @ [Next (Some error)]
       \<and> ResJson (envelope error req)
           \<in> set (butlast (projr (error_middleware accepts error req)))"
  using assms by (simp add: error_middleware_def)

theorem error_forwarded_after_response_witness:
  "next_calls (projr (error_middleware status_in_range (HTTPError 400 ''FOO NOT FOUND'')
        \<lparr> http_method = ''POST'', path = ''/'', authorization = None \<rparr>))
     = [Some \<lparr> ctor_name = ''HTTPError'',
               props = [(''name'', JString ''Error''), (''status'', JNumber 400),
                        (''message'', JString ''FOO NOT FOUND'')] \<rparr>]"
proof -
  have h: "status_in_range
      (js_or (error_prop (HTTPError 400 ''FOO NOT FOUND'') ''statusCode'') (JNumber 500))"
    by (simp add: js_or_def error_prop_def lookup_prop_def HTTPError_def)
  show ?thesis
    using error_forwarded_after_response [of status_in_range "HTTPError 400 ''FOO NOT FOUND''"
        "\<lparr> http_method = ''POST'', path = ''/'', authorization = None \<rparr>", OF h]
    by (simp add: HTTPError_def)
qed

text \<open>
  C4 as it is written fails: an error whose \<^verbatim>\<open>statusCode\<close> is 1000 makes the first
  statement of the middleware throw, so \<^verbatim>\<open>next(error)\<close> is never called and the error
  it was given is not forwarded.
\<close>

theorem statusCode_1000_not_forwarded:
  "error_middleware status_in_range
       \<lparr> ctor_name = ''Error'',
         props = [(''statusCode'', JNumber 1000), (''message'', JString ''boom'')] \<rparr>
       \<lparr> http_method = ''POST'', path = ''/'', authorization = None \<rparr>
     = Inl (InvalidStatusCode (JNumber 1000))
   \<and> isl (error_middleware status_in_range
       \<lparr> ctor_name = ''Error'',
         props = [(''statusCode'', JNumber 1000), (''message'', JString ''boom'')] \<rparr>
       \<lparr> http_method = ''POST'', path = ''/'', authorization = None \<rparr>)"
  by (simp add: error_middleware_def js_or_def error_prop_def lookup_prop_def)

text \<open>
  C10. For every error, request and HTTP layer, the status code the middleware uses is
  the \<^verbatim>\<open>statusCode\<close> inside its envelope: the error's \<^verbatim>\<open>statusCode\<close> when that is
  truthy and 500 otherwise. Either the layer refuses that code and the middleware throws
  before any body is written, or the status set on the response is the \<^verbatim>\<open>statusCode\<close>
  inside the envelope that is the response's body. No response carries an envelope that
  disagrees with its status.
\<close>

theorem status_equals_envelope_statusCode:
  "(case error_middleware accepts error req of
      Inl t \<Rightarrow>
        t = InvalidStatusCode (js_get (js_get (envelope error req) ''error'') ''statusCode'')
        \<and> t = InvalidStatusCode
              (case map_of (props error) ''statusCode'' of
                 None \<Rightarrow> JNumber 500
               | Some v \<Rightarrow> if truthy v then v else JNumber 500)
    | Inr fx \<Rightarrow>
        statusCode (respond fx) =
          js_get (js_get (json_body (respond fx)) ''error'') ''statusCode''
        \<and> body (respond fx) = Some (Json (envelope error req))
        \<and> statusCode (respond fx) =
            (case map_of (props error) ''statusCode'' of
               None \<Rightarrow> JNumber 500
             | Some v \<Rightarrow> if truthy v then v else JNumber 500))"
proof (cases "accepts (js_or (error_prop error ''statusCode'') (JNumber 500))")
  case True
  then have "error_middleware accepts error req =
      Inr [ResStatus (js_or (error_prop error ''statusCode'') (JNumber 500)),
           ResJson (envelope error req), Next (Some error)]"
    by (simp add: error_middleware_def)
  moreover have "js_get (js_get (envelope error req) ''error'') ''statusCode'' =
      js_or (error_prop error ''statusCode'') (JNumber 500)"
    by (simp add: envelope_def lookup_prop_def)
  ultimately show ?thesis
    by (simp add: respond_def fresh_response_def json_body_def resolved_status)
next
  case False
  moreover have "js_get (js_get (envelope error req) ''error'') ''statusCode'' =
      js_or (error_prop error ''statusCode'') (JNumber 500)"
    by (simp add: envelope_def lookup_prop_def)
  ultimately show ?thesis
    by (simp add: error_middleware_def resolved_status)
qed

text \<open>The statement at an error that carries the status code 404, where the response is
  written, and at one that carries 1000, where the middleware throws.\<close>

theorem status_equals_envelope_statusCode_witness:
  "statusCode (respond (projr (error_middleware status_in_range
       \<lparr> ctor_name = ''NotFoundError'',
         props = [(''message'', JString ''no such item''), (''statusCode'', JNumber 404)] \<rparr>
       \<lparr> http_method = ''POST'', path = ''/items'', authorization = None \<rparr>))) = JNumber 404
   \<and> js_get (js_get (json_body (respond (projr (error_middleware status_in_range
       \<lparr> ctor_name = ''NotFoundError'',
         props = [(''message'', JString ''no such item''), (''statusCode'', JNumber 404)] \<rparr>
       \<lparr> http_method = ''POST'', path = ''/items'', authorization = None \<rparr>)))) ''error'')
       ''statusCode''
     = JNumber 404
   \<and> error_middleware status_in_range
       \<lparr> ctor_name = ''Error'',
         props = [(''statusCode'', JNumber 1000), (''message'', JString ''boom'')] \<rparr>
       \<lparr> http_method = ''POST'', path = ''/'', authorization = None \<rparr>
     = Inl (InvalidStatusCode (JNumber 1000))"
proof -
  let ?e = "\<lparr> ctor_name = ''NotFoundError'',
              props = [(''message'', JString ''no such item''),
                       (''statusCode'', JNumber 404)] \<rparr>"
  let ?r = "\<lparr> http_method = ''POST'', path = ''/items'', authorization = None \<rparr>"
  let ?e' = "\<lparr> ctor_name = ''Error'',
               props = [(''statusCode'', JNumber 1000), (''message'', JString ''boom'')] \<rparr>"
  let ?r' = "\<lparr> http_method = ''POST'', path = ''/'', authorization = None \<rparr>"
  have written: "\<not> isl (error_middleware status_in_range ?e ?r)"
    by (simp add: error_middleware_def js_or_def error_prop_def lookup_prop_def)
  have thrown: "isl (error_middleware status_in_range ?e' ?r')"
    by (simp add: error_middleware_def js_or_def error_prop_def lookup_prop_def)
  from written status_equals_envelope_statusCode [where accepts = status_in_range and error = ?e and req = ?r]
  have a: "statusCode (respond (projr (error_middleware status_in_range ?e ?r))) = JNumber 404
      \<and> js_get (js_get (json_body (respond (projr (error_middleware status_in_range ?e ?r))))
            ''error'') ''statusCode'' = JNumber 404"
    by (cases "error_middleware status_in_range ?e ?r") auto
  from thrown status_equals_envelope_statusCode
      [where accepts = status_in_range and error = ?e' and req = ?r']
  have b: "error_middleware status_in_range ?e' ?r' = Inl (InvalidStatusCode (JNumber 1000))"
    by (cases "error_middleware status_in_range ?e' ?r'") simp_all
  from a b show ?thesis by simp
qed

section \<open>Logging and the environment\<close>

text \<open>
  C5, as the code has it. The logger's minimum level is "debug" exactly when
  \<^verbatim>\<open>NODE_ENV\<close> is unset, is the empty string or equals "development", and "warn" for
  every other value.
\<close>

theorem level_by_NODE_ENV:
  "level var =
     (if var = None \<or> var = Some '''' \<or> var = Some ''development''
      then ''debug'' else ''warn'')"
  by (cases var) (auto simp: level_def NODE_ENV_def js_or_def)

theorem level_by_NODE_ENV_witness:
  "level None = ''debug'' \<and> level (Some ''development'') = ''debug''
   \<and> level (Some ''production'') = ''warn'' \<and> level (Some ''test'') = ''warn''"
  using level_by_NODE_ENV [of None] level_by_NODE_ENV [of "Some ''development''"]
    level_by_NODE_ENV [of "Some ''production''"] level_by_NODE_ENV [of "Some ''test''"]
  by simp

text \<open>
  C5 as it is written fails: with \<^verbatim>\<open>NODE_ENV\<close> set to the empty string, a value that is
  neither "development" nor unset, the level is "debug" and not "warn".
\<close>

theorem level_empty_NODE_ENV_is_debug:
  "level (Some '''') = ''debug'' \<and> level (Some '''') \<noteq> ''warn''
   \<and> Some '''' \<noteq> Some ''development'' \<and> Some '''' \<noteq> (None :: string option)"
  by (simp add: level_def NODE_ENV_def js_or_def)

text \<open>
  C6, as the code has it. \<^verbatim>\<open>skip\<close> answers true exactly when \<^verbatim>\<open>NODE_ENV\<close> is set,
  is not the empty string and is not "development". When it answers false, a successful
  request, which the body parsers have passed on to the adapter, gives exactly one record
  at level "http", made of the method, the URL with the path, the status, the content
  length and the response time, and the logger emits it. When it answers true, no record
  is emitted for any request, whether the parsers passed it on or not.
\<close>

theorem skip_and_http_line:
  "(skip var \<longleftrightarrow> var \<noteq> None \<and> var \<noteq> Some '''' \<and> var \<noteq> Some ''development'')
   \<and> (if skip var
       then emitted var (app_use var parse_failure x) = []
       else emitted var (app_use var None x) =
              [(''http'', req_method x @ '' '' @ req_url x @ '' '' @ res_status x @ '' ''
                  @ res_content_length x @ '' - '' @ response_time x @ '' ms''
                  @ [CHR 0x0A])])"
proof -
  have "emitted var (app_use var None x) = [(''http'', format_line x @ [CHR 0x0A])]"
    if "\<not> skip var"
    using that level_unless_skip [OF that]
    by (simp add: app_use_def morganMiddleware_def stream_write_def enabled_def levels_def)
  moreover have "emitted var (app_use var parse_failure x) = []" if "skip var"
    using that by (cases parse_failure) (simp_all add: app_use_def morganMiddleware_def)
  ultimately show ?thesis
    using skip_iff [of var] by (simp add: format_line_def)
qed

text \<open>The statement for the successful request \<^verbatim>\<open>POST /\<close> answered 200, with
  \<^verbatim>\<open>NODE_ENV\<close> unset and with \<^verbatim>\<open>NODE_ENV\<close> set to "production".\<close>

theorem skip_and_http_line_witness:
  "emitted None (app_use None None
       \<lparr> req_method = ''POST'', req_url = ''/'', res_status = ''200'',
         res_content_length = ''27'', response_time = ''1.5'' \<rparr>)
     = [(''http'', ''POST / 200 27 - 1.5 ms'' @ [CHR 0x0A])]
   \<and> emitted (Some ''production'') (app_use (Some ''production'') None
       \<lparr> req_method = ''POST'', req_url = ''/'', res_status = ''200'',
         res_content_length = ''27'', response_time = ''1.5'' \<rparr>)
     = []"
proof -
  let ?x = "\<lparr> req_method = ''POST'', req_url = ''/'', res_status = ''200'',
              res_content_length = ''27'', response_time = ''1.5'' \<rparr>"
  have dev: "\<not> skip None" and prod: "skip (Some ''production'')"
    by (simp_all add: skip_def NODE_ENV_def js_or_def)
  from dev skip_and_http_line [of None None ?x]
  have a: "emitted None (app_use None None ?x) =
      [(''http'', ''POST / 200 27 - 1.5 ms'' @ [CHR 0x0A])]"
    by simp
  from prod skip_and_http_line [of "Some ''production''" None ?x]
  have b: "emitted (Some ''production'') (app_use (Some ''production'') None ?x) = []"
    by simp
  from a b show ?thesis by simp
qed

text \<open>
  C6 as it is written fails: with \<^verbatim>\<open>NODE_ENV\<close> set to the empty string, which is not
  "development" and is not unset, \<^verbatim>\<open>skip\<close> answers false and the "http" line of a
  successful request is emitted.
\<close>

theorem empty_NODE_ENV_not_skipped:
  "skip (Some '''') = False
   \<and> (case Some '''' of None \<Rightarrow> ''development'' | Some s \<Rightarrow> s) \<noteq> ''development''
   \<and> emitted (Some '''') (app_use (Some '''') None
        \<lparr> req_method = ''POST'', req_url = ''/'', res_status = ''200'',
          res_content_length = ''27'', response_time = ''1.5'' \<rparr>)
     = [(''http'', ''POST / 200 27 - 1.5 ms'' @ [CHR 0x0A])]"
  by (simp add: skip_def NODE_ENV_def js_or_def app_use_def morganMiddleware_def
      stream_write_def enabled_def levels_def level_def format_line_def)

section \<open>Authentication and the route\<close>

text \<open>
  C7. For every token the verify callback calls \<^verbatim>\<open>done\<close> exactly once, with
  \<^verbatim>\<open>null\<close> as the error, the empty object as the principal and \<^verbatim>\<open>{scope: "all"}\<close> as
  the info: the error it passes is falsy and the principal is truthy, so it passes neither
  an error nor a refusal. Before that it prints the token.
\<close>

theorem verify_always_succeeds:
  "verify token =
      [ConsoleLog [JString ''HELLLLOOO ::::'', JString token],
       DoneCall JNull (JObject []) (JObject [(''scope'', JString ''all'')])]
   \<and> done_calls (verify token) =
      [(JNull, JObject [], JObject [(''scope'', JString ''all'')])]
   \<and> \<not> truthy JNull \<and> truthy (JObject [])"
  by (simp add: verify_def)

theorem verify_always_succeeds_witness:
  "done_calls (verify '''') = [(JNull, JObject [], JObject [(''scope'', JString ''all'')])]
   \<and> done_calls (verify ''not a token'') =
      [(JNull, JObject [], JObject [(''scope'', JString ''all'')])]"
  using verify_always_succeeds [of "''''"] verify_always_succeeds [of "''not a token''"]
  by simp

text \<open>
  C8. For every request that the authentication middleware lets through (it calls
  \<^verbatim>\<open>next()\<close>) without touching the response, the route does what authentication did
  and then exactly two things: it calls the logger at level "debug" with the fixed
  message, and it sends the fixed text. The response has status 200 and that text as its
  body.
\<close>

theorem authenticated_post_root:
  assumes "Next None \<in> set (authenticate req)"
    and "respond (authenticate req) = fresh_response"
  shows "post_root authenticate req =
           authenticate req
             @ [LoggerCall ''debug'' ''foo'', ResSend ''Express + TypeScript Server'']
       \<and> respond (post_root authenticate req) =
           \<lparr> statusCode = JNumber 200,
             body = Some (Text ''Express + TypeScript Server'') \<rparr>"
proof -
  have route: "post_root authenticate req =
      authenticate req
        @ [LoggerCall ''debug'' ''foo'', ResSend ''Express + TypeScript Server'']"
    using assms(1) by (simp add: post_root_def then_handler_def asyncWrapper_def handler_def)
  have "respond (post_root authenticate req) =
      fold res_apply [LoggerCall ''debug'' ''foo'', ResSend ''Express + TypeScript Server'']
        fresh_response"
    unfolding route respond_append assms(2) ..
  then show ?thesis
    using route by (simp add: fresh_response_def)
qed

text \<open>The statement at the request \<^verbatim>\<open>POST /\<close> with the header
  \<^verbatim>\<open>Authorization: Bearer anything123\<close>, authenticated by the bearer layer with the
  verify callback of the source.\<close>

theorem authenticated_post_root_witness:
  "post_root (passport_authenticate verify)
      \<lparr> http_method = ''POST'', path = ''/'', authorization = Some ''Bearer anything123'' \<rparr>
    = [ConsoleLog [JString ''HELLLLOOO ::::'', JString ''anything123''],
       DoneCall JNull (JObject []) (JObject [(''scope'', JString ''all'')]),
       Next None,
       LoggerCall ''debug'' ''foo'',
       ResSend ''Express + TypeScript Server'']
  \<and> respond (post_root (passport_authenticate verify)
      \<lparr> http_method = ''POST'', path = ''/'', authorization = Some ''Bearer anything123'' \<rparr>)
    = \<lparr> statusCode = JNumber 200, body = Some (Text ''Express + TypeScript Server'') \<rparr>"
proof -
  let ?req =
    "\<lparr> http_method = ''POST'', path = ''/'', authorization = Some ''Bearer anything123'' \<rparr>"
  have auth: "passport_authenticate verify ?req =
      [ConsoleLog [JString ''HELLLLOOO ::::'', JString ''anything123''],
       DoneCall JNull (JObject []) (JObject [(''scope'', JString ''all'')]),
       Next None]"
    by (simp add: passport_authenticate_def bearer_token_def verify_def)
  have h1: "Next None \<in> set (passport_authenticate verify ?req)"
    by (simp add: auth)
  have h2: "respond (passport_authenticate verify ?req) = fresh_response"
    by (simp add: auth respond_def)
  note inst = authenticated_post_root [of "passport_authenticate verify" ?req, OF h1 h2]
  have "post_root (passport_authenticate verify) ?req =
      [ConsoleLog [JString ''HELLLLOOO ::::'', JString ''anything123''],
       DoneCall JNull (JObject []) (JObject [(''scope'', JString ''all'')]),
       Next None,
       LoggerCall ''debug'' ''foo'',
       ResSend ''Express + TypeScript Server'']"
    using inst [THEN conjunct1] by (simp add: auth)
  then show ?thesis
    using inst [THEN conjunct2] by (rule conjI)
qed



end
